theory Spec2Isabelle
  imports Main "HOL-Library.Char_ord" "HOL-Library.List_Lexorder" "HOL-Library.AList"
begin

text \<open>
  The request signing of the package \<open>capi\<close>: \<open>getHost\<close>, \<open>getUrl\<close>, \<open>sign\<close>,
  \<open>tencentSign\<close> (the V3 scheme, TC3-HMAC-SHA256) and \<open>tencentSignV1\<close> (the legacy
  scheme) of \<open>src/packages/capi/src/utils.ts\<close>, and the class \<open>Capi\<close> of
  \<open>src/packages/capi/src/index.ts\<close> up to the call of the HTTP client.
\<close>

section \<open>Values of the parameter maps\<close>

text \<open>
  A JavaScript string is modelled as a \<^typ>\<open>string\<close>: the list of its bytes in UTF-8, which
  for ASCII text is the list of its characters. Numbers are the integers together with
  \<open>NaN\<close>; fractions and infinities are outside the model. An object is an association
  list with distinct keys, in insertion order; \<open>AList.update\<close> is property assignment
  (an existing key keeps its place, a new key goes last). JavaScript lists the keys that
  look like array indices before the others; the order of the keys of an object matters
  to nothing below, since the V1 signer sorts them and the serialisers are parameters.
\<close>

datatype scalar = JUndefined | JNull | JBool bool | JNum int | JNaN | JStr string

datatype jsval = Leaf scalar | Obj "(string \<times> jsval) list" | Arr "jsval list"

type_synonym Payload = "(string \<times> jsval) list"

type_synonym FlatPayload = "(string \<times> scalar) list"

definition LF :: string where
  "LF = [CHR 0x0A]"

definition digit :: "nat \<Rightarrow> char" where
  "digit d = ''0123456789'' ! d"

text \<open>The decimal digits of a number that is not negative.\<close>

fun dec :: "int \<Rightarrow> string" where
  "dec i = (if i < 10 then [digit (nat i)] else dec (i div 10) @ [digit (nat (i mod 10))])"

declare dec.simps [simp del]

text \<open>
  Number to string, as a template literal renders an integer of fewer than 22 digits;
  longer ones, which JavaScript writes with an exponent, are outside the model.
\<close>

definition int_str :: "int \<Rightarrow> string" where
  "int_str i = (if i < 0 then ''-'' @ dec (- i) else dec i)"

text \<open>\<open>`${v}`\<close> for a scalar.\<close>

fun to_str :: "scalar \<Rightarrow> string" where
  "to_str JUndefined = ''undefined''"
| "to_str JNull = ''null''"
| "to_str (JBool b) = (if b then ''true'' else ''false'')"
| "to_str (JNum i) = int_str i"
| "to_str JNaN = ''NaN''"
| "to_str (JStr s) = s"

text \<open>\<open>`${x}`\<close> for an optional string property: an absent one renders as \<open>undefined\<close>.\<close>

fun tpl :: "string option \<Rightarrow> string" where
  "tpl None = ''undefined''"
| "tpl (Some s) = s"

text \<open>\<open>x || d\<close> for an optional string property: absent and empty are both falsy.\<close>

fun or_default :: "string option \<Rightarrow> string \<Rightarrow> string" where
  "or_default None d = d"
| "or_default (Some s) d = (if s = [] then d else s)"

fun truthy :: "scalar \<Rightarrow> bool" where
  "truthy JUndefined = False"
| "truthy JNull = False"
| "truthy (JBool b) = b"
| "truthy (JNum i) = (i \<noteq> 0)"
| "truthy JNaN = False"
| "truthy (JStr s) = (s \<noteq> [])"

text \<open>\<open>v[0]\<close> for a truthy scalar: the first character of a string, undefined otherwise.\<close>

fun index0 :: "scalar \<Rightarrow> scalar" where
  "index0 (JStr (c # cs)) = JStr [c]"
| "index0 v = JUndefined"

text \<open>
  \<open>toUpperCase()\<close> on ASCII text: the letters \<open>a\<close> to \<open>z\<close>. What it does to letters
  beyond ASCII is outside the model.
\<close>

definition upper_char :: "char \<Rightarrow> char" where
  "upper_char c =
     (if CHR ''a'' \<le> c \<and> c \<le> CHR ''z'' then char_of (of_char c - (32::nat)) else c)"

definition toUpperCase :: "string \<Rightarrow> string" where
  "toUpperCase s = map upper_char s"

text \<open>\<open>s.indexOf(c)\<close>: the first position of \<open>c\<close>, or \<open>-1\<close>.\<close>

fun indexOf :: "string \<Rightarrow> char \<Rightarrow> int" where
  "indexOf [] c = - 1"
| "indexOf (x # xs) c =
     (if x = c then 0 else (let i = indexOf xs c in if i < 0 then - 1 else i + 1))"

text \<open>\<open>key.replace(/_/g, '.')\<close>.\<close>

definition replace_underscores :: "string \<Rightarrow> string" where
  "replace_underscores key = map (\<lambda>c. if c = CHR ''_'' then CHR ''.'' else c) key"

text \<open>
  \<open>obj[key]\<close> on a flat object: undefined when the key is not there. The signer reads
  keys of the object itself and keys with a dot in them, so nothing is inherited.
\<close>

definition get_prop :: "FlatPayload \<Rightarrow> string \<Rightarrow> scalar" where
  "get_prop obj key = (case map_of obj key of None \<Rightarrow> JUndefined | Some v \<Rightarrow> v)"

definition Object_keys :: "('k \<times> 'v) list \<Rightarrow> 'k list" where
  "Object_keys obj = map fst obj"

section \<open>Interfaces of \<open>utils.ts\<close> and \<open>index.ts\<close>\<close>

text \<open>
  \<open>CapiOptions\<close> as the interface declares it: a property marked \<open>?\<close> is optional
  (\<open>None\<close> when absent), the other four are strings. The field \<open>method'\<close> is the
  property \<open>method\<close>. The fields of the other interfaces carry a prefix (\<open>hp_\<close>,
  \<open>r_\<close>, \<open>v1_\<close>, \<open>rq_\<close>) before the name of the property.
\<close>

record CapiOptions =
  isV3 :: "bool option"
  debug :: "bool option"
  host :: "string option"
  baseHost :: "string option"
  path :: "string option"
  method' :: "string option"
  protocol :: "string option"
  ServiceType :: string
  Region :: string
  SecretId :: string
  SecretKey :: string
  Token :: "string option"
  SignatureMethod :: "string option"
  RequestClient :: "string option"
  timeout :: "int option"

record HostParams =
  hp_ServiceType :: string
  hp_Region :: string
  hp_host :: "string option"
  hp_baseHost :: "string option"
  hp_path :: "string option"
  hp_protocol :: "string option"

record TencentSignResult =
  r_url :: string
  r_payload :: FlatPayload
  r_Host :: string
  r_Authorization :: string
  r_Timestamp :: int

record TencentSignResultV1 =
  v1_url :: string
  v1_method :: string
  v1_signPath :: string

text \<open>
  The request descriptor handed to the HTTP client. \<open>rq_form = None\<close>: the property was
  never assigned; \<open>rq_form = Some None\<close>: it was assigned \<open>undefined\<close>.
\<close>

record rp_Options =
  rq_url :: string
  rq_method :: string
  rq_json :: bool
  rq_strictSSL :: bool
  rq_headers :: "(string \<times> jsval) list option"
  rq_body :: "FlatPayload option"
  rq_form :: "FlatPayload option option"
  rq_timeout :: "int option"

text \<open>
  What the code imports from outside the repository is a parameter of the model:
  Node's \<open>crypto\<close> (\<open>createHash('sha256')\<close>, \<open>createHmac(algorithm, key)\<close>, the
  \<open>hex\<close> and \<open>base64\<close> encodings of a digest), \<open>JSON.stringify\<close>,
  \<open>querystring.stringify\<close> and \<open>dotQs.flatten\<close>. Digests and keys are byte strings.
  \<open>createHmac\<close> is taken to accept every algorithm name it is given.
\<close>

record Lib =
  crypto_sha256 :: "string \<Rightarrow> string"
  crypto_hmac :: "string \<Rightarrow> string \<Rightarrow> string \<Rightarrow> string"
  digest_hex :: "string \<Rightarrow> string"
  digest_base64 :: "string \<Rightarrow> string"
  JSON_stringify :: "FlatPayload \<Rightarrow> string"
  JSON_stringify_options :: "rp_Options \<Rightarrow> string"
  qs_stringify :: "FlatPayload \<Rightarrow> string"
  dotQs_flatten :: "Payload \<Rightarrow> FlatPayload"

text \<open>
  \<open>moment()\<close>: the instant of the call, read twice (\<open>unix()\<close>, \<open>toISOString()\<close>).
\<close>

record Moment =
  unix :: int
  toISOString :: string

text \<open>What \<open>logger\<close> printed, in order: (topic, content).\<close>

type_synonym Log = "(string \<times> string) list"

section \<open>\<open>utils.ts\<close>\<close>

definition getHost :: "HostParams \<Rightarrow> bool \<Rightarrow> string" where
  "getHost hp isV1 =
     (let synth = hp_ServiceType hp @ (if isV1 then [] else ''.'' @ hp_Region hp)
                  @ ''.'' @ tpl (hp_baseHost hp)
      in case hp_host hp of
           None \<Rightarrow> synth
         | Some h \<Rightarrow> if h = [] then synth else h)"

definition getUrl :: "HostParams \<Rightarrow> bool \<Rightarrow> string" where
  "getUrl opts isV1 =
     (let host' = getHost opts isV1;
          path' = or_default (hp_path opts) ''/''
      in or_default (hp_protocol opts) ''https'' @ ''://'' @ host' @ path')"

text \<open>
  \<open>sign(str, secretKey, algorithm = 'sha256')\<close>: the default applies when the third
  argument is absent or undefined.
\<close>

definition sign :: "Lib \<Rightarrow> string \<Rightarrow> string \<Rightarrow> string option \<Rightarrow> string" where
  "sign lib str secretKey algorithm =
     crypto_hmac lib (case algorithm of None \<Rightarrow> ''sha256'' | Some a \<Rightarrow> a) secretKey str"

text \<open>The object literal both signers build from the options.\<close>

definition hostParams :: "CapiOptions \<Rightarrow> HostParams" where
  "hostParams options' =
     \<lparr> hp_ServiceType = ServiceType options', hp_Region = Region options',
       hp_host = host options', hp_baseHost = baseHost options',
       hp_path = path options', hp_protocol = protocol options' \<rparr>"

text \<open>
  \<open>tencentSign\<close> returns its result and what it logged. The caller's \<open>payload\<close> object
  is only read: \<open>payload = dotQs.flatten(payload)\<close> rebinds the parameter to the new
  object, which the result carries.
\<close>

definition tencentSign :: "Lib \<Rightarrow> Moment \<Rightarrow> Payload \<Rightarrow> CapiOptions \<Rightarrow> TencentSignResult \<times> Log" where
  "tencentSign lib nowTime payload options' =
     (let url = getUrl (hostParams options') False;
          Host = getHost (hostParams options') False;
          Timestamp = unix nowTime;
          date = take 10 (toISOString nowTime);
          Algorithm = ''TC3-HMAC-SHA256'';
          flat = dotQs_flatten lib payload;
          HTTPRequestMethod = toUpperCase (or_default (method' options') ''POST'');
          CanonicalURI = ''/'';
          CanonicalQueryString = [];
          CanonicalHeaders = ''content-type:application/json'' @ LF @ ''host:'' @ Host @ LF;
          SignedHeaders = ''content-type;host'';
          HashedRequestPayload = digest_hex lib (crypto_sha256 lib (JSON_stringify lib flat));
          CanonicalRequest = HTTPRequestMethod @ LF @ CanonicalURI @ LF @ CanonicalQueryString
             @ LF @ CanonicalHeaders @ LF @ SignedHeaders @ LF @ HashedRequestPayload;
          CredentialScope = date @ ''/'' @ ServiceType options' @ ''/tc3_request'';
          HashedCanonicalRequest = digest_hex lib (crypto_sha256 lib CanonicalRequest);
          StringToSign = Algorithm @ LF @ int_str Timestamp @ LF @ CredentialScope
             @ LF @ HashedCanonicalRequest;
          SecretDate = sign lib date (''TC3'' @ SecretKey options') None;
          SecretService = sign lib (ServiceType options') SecretDate None;
          SecretSigning = sign lib ''tc3_request'' SecretService None;
          Signature = digest_hex lib (crypto_hmac lib ''sha256'' SecretSigning StringToSign);
          Authorization = Algorithm @ '' Credential='' @ SecretId options' @ ''/''
             @ CredentialScope @ '', SignedHeaders='' @ SignedHeaders
             @ '', Signature='' @ Signature
      in (\<lparr> r_url = url, r_payload = flat, r_Host = Host,
             r_Authorization = Authorization, r_Timestamp = Timestamp \<rparr>,
          if debug options' = Some True
          then [(''CanonicalRequest'', CanonicalRequest), (''StringToSign'', StringToSign),
                (''Signature'', Signature), (''Authorization'', Authorization)]
          else []))"

text \<open>
  Lines 177 to 185 of \<open>tencentSignV1\<close>: the assignments to the properties of the
  caller's \<open>payload\<close> object, before the parameter is rebound. \<open>Nonce\<close> stands for
  \<open>Math.round(Math.random() * 65535)\<close>.
\<close>

definition v1_inject :: "Moment \<Rightarrow> int \<Rightarrow> Payload \<Rightarrow> CapiOptions \<Rightarrow> Payload" where
  "v1_inject nowTime Nonce payload options' =
     (let p1 = AList.update ''Region'' (Leaf (JStr (Region options'))) payload;
          p2 = AList.update ''Nonce'' (Leaf (JNum Nonce)) p1;
          p3 = AList.update ''Timestamp'' (Leaf (JNum (unix nowTime))) p2;
          p4 = AList.update ''SecretId'' (Leaf (JStr (SecretId options'))) p3;
          p5 = AList.update ''RequestClient'' (Leaf (JStr ''SDK_NODEJS_v0.0.1'')) p4
      in if SignatureMethod options' = Some ''sha256''
         then AList.update ''SignatureMethod'' (Leaf (JStr ''HmacSHA256'')) p5
         else p5)"

text \<open>
  The callback of \<open>keys.forEach\<close> (lines 193 to 210): from \<open>qstr\<close> before the key to
  \<open>qstr\<close> after it. The parameter \<open>key\<close> is reassigned before \<open>payload[key]\<close> is read.
\<close>

definition v1_append :: "string \<Rightarrow> FlatPayload \<Rightarrow> string \<Rightarrow> string \<Rightarrow> string" where
  "v1_append meth payload qstr key0 =
     (if key0 = [] then qstr
      else
        let key = (if indexOf key0 CHR ''_'' \<noteq> 0 then replace_underscores key0 else key0);
            val = get_prop payload key
        in if meth = ''POST'' \<and> truthy val \<and> index0 val = JStr ''@'' then qstr
           else
             let val' = (if val = JUndefined \<or> val = JNull \<or> val = JNaN then [] else to_str val)
             in qstr @ ''&'' @ key @ ''='' @ val')"

text \<open>
  Lines 189 to 212: the sorted keys, the loop, \<open>qstr.slice(1)\<close>. \<open>sort()\<close> without a
  comparison function orders strings by their character codes, a prefix before its
  extensions, which is the order of \<^typ>\<open>string\<close> here.
\<close>

definition v1_qstr :: "string \<Rightarrow> FlatPayload \<Rightarrow> string" where
  "v1_qstr meth payload =
     (let keys = sort (Object_keys payload);
          qstr = foldl (v1_append meth payload) [] keys
      in drop 1 qstr)"

text \<open>
  Lines 172 and 187 to 218: the object \<open>payload\<close> names after
  \<open>payload = dotQs.flatten(payload)\<close>, once \<open>payload.Signature\<close> is assigned. The
  assignment goes to this new object, not to the caller's.
\<close>

definition v1_signed :: "Lib \<Rightarrow> Moment \<Rightarrow> int \<Rightarrow> Payload \<Rightarrow> CapiOptions \<Rightarrow> FlatPayload" where
  "v1_signed lib nowTime Nonce payload options' =
     (let Host = getHost (hostParams options') True;
          flat = dotQs_flatten lib (v1_inject nowTime Nonce payload options');
          meth = toUpperCase (or_default (method' options') ''POST'');
          qstr = v1_qstr meth flat;
          Signature = digest_base64 lib
            (sign lib (meth @ Host @ tpl (path options') @ ''?'' @ qstr)
               (SecretKey options') (SignatureMethod options'))
      in AList.update ''Signature'' (JStr Signature) flat)"

text \<open>
  \<open>tencentSignV1\<close> returns its result and the caller's \<open>payload\<close> object as the call
  leaves it.
\<close>

definition tencentSignV1 ::
  "Lib \<Rightarrow> Moment \<Rightarrow> int \<Rightarrow> Payload \<Rightarrow> CapiOptions \<Rightarrow> TencentSignResultV1 \<times> Payload" where
  "tencentSignV1 lib nowTime Nonce payload options' =
     (let url = getUrl (hostParams options') True;
          meth = toUpperCase (or_default (method' options') ''POST'')
      in (\<lparr> v1_url = url, v1_method = meth,
             v1_signPath = qs_stringify lib (v1_signed lib nowTime Nonce payload options') \<rparr>,
          v1_inject nowTime Nonce payload options'))"

section \<open>\<open>index.ts\<close>\<close>

definition defaultOptions :: CapiOptions where
  "defaultOptions =
     \<lparr> isV3 = None, debug = None, host = None, baseHost = Some ''api.qcloud.com'',
       path = Some ''/'', method' = Some ''POST'', protocol = Some ''https'',
       ServiceType = [], Region = ''ap-guangzhou'', SecretId = [], SecretKey = [],
       Token = None, SignatureMethod = Some ''sha1'', RequestClient = None,
       timeout = None \<rparr>"

text \<open>
  An options object as a caller passes it: the names of the optional properties it has
  of its own, and a record of what its properties hold. A property that is there may
  hold undefined (\<open>None\<close>); a property that is not there reads as undefined whatever the
  record says. The four properties that are not optional are always there.
\<close>

definition own_prop :: "string list \<Rightarrow> string \<Rightarrow> 'a option \<Rightarrow> 'a option" where
  "own_prop own name v = (if name \<in> set own then v else None)"

text \<open>
  \<open>assign(target, source)\<close> of \<open>object-assign\<close>: it writes every own property of the
  source into \<open>target\<close>, one that holds undefined too, and returns \<open>target\<close>; the value
  here is that object afterwards.
\<close>

definition assign :: "CapiOptions \<Rightarrow> string list \<Rightarrow> CapiOptions \<Rightarrow> CapiOptions" where
  "assign target own source =
     \<lparr> isV3 = (if ''isV3'' \<in> set own then isV3 source else isV3 target),
       debug = (if ''debug'' \<in> set own then debug source else debug target),
       host = (if ''host'' \<in> set own then host source else host target),
       baseHost = (if ''baseHost'' \<in> set own then baseHost source else baseHost target),
       path = (if ''path'' \<in> set own then path source else path target),
       method' = (if ''method'' \<in> set own then method' source else method' target),
       protocol = (if ''protocol'' \<in> set own then protocol source else protocol target),
       ServiceType = ServiceType source, Region = Region source,
       SecretId = SecretId source, SecretKey = SecretKey source,
       Token = (if ''Token'' \<in> set own then Token source else Token target),
       SignatureMethod =
         (if ''SignatureMethod'' \<in> set own then SignatureMethod source
          else SignatureMethod target),
       RequestClient =
         (if ''RequestClient'' \<in> set own then RequestClient source else RequestClient target),
       timeout = (if ''timeout'' \<in> set own then timeout source else timeout target) \<rparr>"

text \<open>
  An instance of \<open>Capi\<close>. The constructor's \<open>assign(this.defaultOptions, options)\<close>
  returns \<open>this.defaultOptions\<close> itself, so \<open>this.options\<close> and \<open>this.defaultOptions\<close>
  are one object: the record has one field for both.
\<close>

record Capi =
  options :: CapiOptions

definition Capi_new :: "string list \<Rightarrow> CapiOptions \<Rightarrow> Capi" where
  "Capi_new own opts = \<lparr> options = assign defaultOptions own opts \<rparr>"

text \<open>\<open>data.Action\<close>, \<open>data.Version\<close>: a property of the request data.\<close>

definition data_prop :: "Payload \<Rightarrow> string \<Rightarrow> jsval" where
  "data_prop data key = (case map_of data key of None \<Rightarrow> Leaf JUndefined | Some v \<Rightarrow> v)"

fun truthy_val :: "jsval \<Rightarrow> bool" where
  "truthy_val (Leaf s) = truthy s"
| "truthy_val (Obj fs) = True"
| "truthy_val (Arr vs) = True"

text \<open>
  \<open>TencentSignResultV1\<close> has the properties \<open>url\<close>, \<open>method\<close> and \<open>signPath\<close>, and
  \<open>tencentSignV1\<close> returns exactly these: the \<open>payload\<close> that \<open>request\<close> destructures
  from the result is undefined.
\<close>

definition v1_payload :: "TencentSignResultV1 \<Rightarrow> FlatPayload option" where
  "v1_payload res = None"

text \<open>\<open>qs.stringify(x)\<close>: the empty string for anything that is not an object.\<close>

definition qs_stringify_any :: "Lib \<Rightarrow> FlatPayload option \<Rightarrow> string" where
  "qs_stringify_any lib x = (case x of None \<Rightarrow> [] | Some obj \<Rightarrow> qs_stringify lib obj)"

text \<open>
  \<open>Capi.request\<close> up to the call of the HTTP client: the descriptor it hands over, what
  was logged, the instance afterwards and the caller's \<open>data\<close> object afterwards.
  \<open>opts_arg = None\<close> is a call without the second argument: \<open>opts\<close> is then
  \<open>this.defaultOptions\<close>, the object \<open>this.options\<close> itself, and assigning an object
  to itself leaves it as it is. Otherwise \<open>opts_arg\<close> is the caller's options object.
  \<open>opts_isV3\<close> and \<open>opts_RequestClient\<close> are \<open>opts.isV3\<close> and \<open>opts.RequestClient\<close>.
\<close>

definition request ::
  "Lib \<Rightarrow> Moment \<Rightarrow> int \<Rightarrow> Capi \<Rightarrow> Payload \<Rightarrow> (string list \<times> CapiOptions) option \<Rightarrow> bool
     \<Rightarrow> rp_Options \<times> Log \<times> Capi \<times> Payload" where
  "request lib nowTime Nonce this data opts_arg isV3_arg =
     (let opts_isV3 =
            (case opts_arg of None \<Rightarrow> isV3 (options this)
             | Some (own, opts) \<Rightarrow> own_prop own ''isV3'' (isV3 opts));
          opts_RequestClient =
            (case opts_arg of None \<Rightarrow> RequestClient (options this)
             | Some (own, opts) \<Rightarrow> own_prop own ''RequestClient'' (RequestClient opts));
          options' =
            (case opts_arg of None \<Rightarrow> options this
             | Some (own, opts) \<Rightarrow> assign (options this) own opts);
          this' = this\<lparr>options := options'\<rparr>;
          Action = data_prop data ''Action'';
          Version = data_prop data ''Version'';
          restData = filter (\<lambda>kv. fst kv \<noteq> ''Action'' \<and> fst kv \<noteq> ''Version'') data;
          (reqOption, log1, data') =
            (if isV3_arg \<or> opts_isV3 = Some True then
               let (res, log) = tencentSign lib nowTime restData options';
                   headers =
                     [(''Content-Type'', Leaf (JStr ''application/json'')),
                      (''Authorization'', Leaf (JStr (r_Authorization res))),
                      (''Host'', Leaf (JStr (r_Host res))),
                      (''X-TC-Action'', Action),
                      (''X-TC-Version'',
                         if truthy_val Version then Version else Leaf (JStr ''2018-03-21'')),
                      (''X-TC-Timestamp'', Leaf (JNum (r_Timestamp res))),
                      (''X-TC-Region'', Leaf (JStr (Region options')))];
                   headers1 =
                     (case Token (options this') of
                        Some t \<Rightarrow> if t \<noteq> [] then AList.update ''X-TC-Token'' (Leaf (JStr t)) headers
                                  else headers
                      | None \<Rightarrow> headers);
                   headers2 =
                     (case opts_RequestClient of
                        Some c \<Rightarrow> if c \<noteq> []
                                  then AList.update ''X-TC-RequestClient'' (Leaf (JStr c)) headers1
                                  else headers1
                      | None \<Rightarrow> headers1)
               in (\<lparr> rq_url = r_url res, rq_method = ''POST'', rq_json = True,
                      rq_strictSSL = False, rq_headers = Some headers2,
                      rq_body = Some (r_payload res), rq_form = None, rq_timeout = None \<rparr>,
                   log, data)
             else
               let (res, data1) = tencentSignV1 lib nowTime Nonce data options';
                   payload = v1_payload res;
                   reqOption1 =
                     \<lparr> rq_url = v1_url res, rq_method = v1_method res, rq_json = True,
                       rq_strictSSL = False, rq_headers = None, rq_body = None,
                       rq_form = None, rq_timeout = None \<rparr>
               in (if v1_method res = ''POST''
                   then reqOption1\<lparr>rq_form := Some payload\<rparr>
                   else reqOption1\<lparr>rq_url := rq_url reqOption1 @ ''?'' @ qs_stringify_any lib payload\<rparr>,
                   [], data1));
          reqOption2 =
            (case timeout options' of
               Some t \<Rightarrow> if t \<noteq> 0 then reqOption\<lparr>rq_timeout := Some t\<rparr> else reqOption
             | None \<Rightarrow> reqOption);
          log2 =
            (if debug options' = Some True
             then [(''Request Option'', JSON_stringify_options lib reqOption2)]
             else [])
      in (reqOption2, log1 @ log2, this', data'))"

section \<open>The parameter flattener\<close>

text \<open>
  Modelled from the spec: \<open>dotQs.flatten\<close>, of the package \<open>dot-qs\<close>, whose source is
  not part of the repository. The spec's contract (4.1): every leaf value is reachable by
  a single dotted-path key; a nested map produces \<open>parent.child\<close> keys, a sequence
  produces \<open>parent.<index>\<close> keys with zero-based indices; the values of the result are
  scalars. A path met twice keeps its first place and its last value, as an assignment to
  a property of the result does.
\<close>

fun join_path :: "string option \<Rightarrow> string \<Rightarrow> string" where
  "join_path None k = k"
| "join_path (Some p) k = p @ ''.'' @ k"

fun flatten_val :: "string \<Rightarrow> jsval \<Rightarrow> FlatPayload \<Rightarrow> FlatPayload"
  and flatten_fields :: "string option \<Rightarrow> (string \<times> jsval) list \<Rightarrow> FlatPayload \<Rightarrow> FlatPayload"
  and flatten_elems :: "string \<Rightarrow> nat \<Rightarrow> jsval list \<Rightarrow> FlatPayload \<Rightarrow> FlatPayload" where
  "flatten_val p (Leaf s) acc = AList.update p s acc"
| "flatten_val p (Obj fs) acc = flatten_fields (Some p) fs acc"
| "flatten_val p (Arr vs) acc = flatten_elems p 0 vs acc"
| "flatten_fields pre [] acc = acc"
| "flatten_fields pre ((k, v) # fs) acc =
     flatten_fields pre fs (flatten_val (join_path pre k) v acc)"
| "flatten_elems p i [] acc = acc"
| "flatten_elems p i (v # vs) acc =
     flatten_elems p (Suc i) vs (flatten_val (p @ ''.'' @ dec (int i)) v acc)"

definition flatten :: "Payload \<Rightarrow> FlatPayload" where
  "flatten m = flatten_fields None m []"

text \<open>A flat map read as a parameter map again, to flatten it a second time.\<close>

definition as_map :: "FlatPayload \<Rightarrow> Payload" where
  "as_map f = map (\<lambda>(k, s). (k, Leaf s)) f"

text \<open>
  The leaves of a parameter map with their dotted paths, in the order of the traversal:
  what the spec says must be reachable in the result.
\<close>

fun leaves_val :: "string \<Rightarrow> jsval \<Rightarrow> FlatPayload"
  and leaves_fields :: "string option \<Rightarrow> (string \<times> jsval) list \<Rightarrow> FlatPayload"
  and leaves_elems :: "string \<Rightarrow> nat \<Rightarrow> jsval list \<Rightarrow> FlatPayload" where
  "leaves_val p (Leaf s) = [(p, s)]"
| "leaves_val p (Obj fs) = leaves_fields (Some p) fs"
| "leaves_val p (Arr vs) = leaves_elems p 0 vs"
| "leaves_fields pre [] = []"
| "leaves_fields pre ((k, v) # fs) = leaves_val (join_path pre k) v @ leaves_fields pre fs"
| "leaves_elems p i [] = []"
| "leaves_elems p i (v # vs) = leaves_val (p @ ''.'' @ dec (int i)) v @ leaves_elems p (Suc i) vs"


text \<open>Assigning a list of entries to an object, one after the other.\<close>

definition assign_all :: "FlatPayload \<Rightarrow> FlatPayload \<Rightarrow> FlatPayload" where
  "assign_all acc kvs = foldl (\<lambda>a kv. AList.update (fst kv) (snd kv) a) acc kvs"

section \<open>The derivations as the specification words them\<close>

fun join_with :: "string \<Rightarrow> string list \<Rightarrow> string" where
  "join_with sep [] = []"
| "join_with sep [x] = x"
| "join_with sep (x # y # ys) = x @ sep @ join_with sep (y # ys)"

text \<open>
  V3 (4.3, steps 4 to 8): the canonical request, the string to sign, the key chain
  \<open>k1\<close>, \<open>k2\<close>, \<open>k3\<close>, the signature and the header, from the method, the resolved
  host, the timestamp, the date, the service, the credentials and the flattened payload.
\<close>

definition ref_canonical_request :: "Lib \<Rightarrow> string \<Rightarrow> string \<Rightarrow> FlatPayload \<Rightarrow> string" where
  "ref_canonical_request lib httpMethod Host flat =
     join_with LF
       [toUpperCase httpMethod, ''/'', [],
        ''content-type:application/json'' @ LF @ ''host:'' @ Host @ LF,
        ''content-type;host'',
        digest_hex lib (crypto_sha256 lib (JSON_stringify lib flat))]"

definition ref_string_to_sign :: "Lib \<Rightarrow> int \<Rightarrow> string \<Rightarrow> string \<Rightarrow> string \<Rightarrow> string" where
  "ref_string_to_sign lib Timestamp date service canonicalRequest =
     ''TC3-HMAC-SHA256'' @ LF @ int_str Timestamp @ LF
       @ date @ ''/'' @ service @ ''/tc3_request'' @ LF
       @ digest_hex lib (crypto_sha256 lib canonicalRequest)"

definition ref_signing_key :: "Lib \<Rightarrow> string \<Rightarrow> string \<Rightarrow> string \<Rightarrow> string" where
  "ref_signing_key lib secretKey date service =
     (let k1 = crypto_hmac lib ''sha256'' (''TC3'' @ secretKey) date;
          k2 = crypto_hmac lib ''sha256'' k1 service;
          k3 = crypto_hmac lib ''sha256'' k2 ''tc3_request''
      in k3)"

definition ref_authorization ::
  "Lib \<Rightarrow> string \<Rightarrow> string \<Rightarrow> int \<Rightarrow> string \<Rightarrow> string \<Rightarrow> string \<Rightarrow> string \<Rightarrow> FlatPayload
     \<Rightarrow> string" where
  "ref_authorization lib httpMethod Host Timestamp date service secretId secretKey flat =
     (let stringToSign =
            ref_string_to_sign lib Timestamp date service
              (ref_canonical_request lib httpMethod Host flat);
          signature =
            digest_hex lib
              (crypto_hmac lib ''sha256'' (ref_signing_key lib secretKey date service)
                 stringToSign)
      in ''TC3-HMAC-SHA256 Credential='' @ secretId @ ''/'' @ date @ ''/'' @ service
           @ ''/tc3_request, SignedHeaders=content-type;host, Signature='' @ signature)"

text \<open>
  V1 (4.2, step 4): the query string over the sorted keys, each parameter with the value
  the flattened map gives it.
\<close>

definition ref_rewrite :: "string \<Rightarrow> string" where
  "ref_rewrite key = (if key \<noteq> [] \<and> hd key = CHR ''_'' then key else replace_underscores key)"

fun starts_with_at :: "scalar \<Rightarrow> bool" where
  "starts_with_at (JStr (c # cs)) = (c = CHR ''@'')"
| "starts_with_at v = False"

definition ref_value :: "scalar \<Rightarrow> string" where
  "ref_value v = (if v = JUndefined \<or> v = JNull \<or> v = JNaN then [] else to_str v)"

definition ref_pair :: "string \<Rightarrow> string \<times> scalar \<Rightarrow> string" where
  "ref_pair httpMethod kv =
     (if fst kv = [] \<or> (httpMethod = ''POST'' \<and> starts_with_at (snd kv)) then []
      else ''&'' @ ref_rewrite (fst kv) @ ''='' @ ref_value (snd kv))"

definition ref_query :: "string \<Rightarrow> FlatPayload \<Rightarrow> string" where
  "ref_query httpMethod flat =
     drop 1 (concat (map (\<lambda>k. ref_pair httpMethod (k, get_prop flat k))
                       (sort (Object_keys flat))))"

section \<open>Concrete inputs\<close>

text \<open>
  A library to run the signers on concrete inputs: each digest and each encoding is
  written out as the call that produced it, and the flattener is \<^const>\<open>flatten\<close>.
\<close>

definition symbolic_lib :: Lib where
  "symbolic_lib =
     \<lparr> crypto_sha256 = (\<lambda>m. ''sha256('' @ m @ '')''),
       crypto_hmac = (\<lambda>a k m. ''hmac-'' @ a @ ''('' @ k @ '','' @ m @ '')''),
       digest_hex = (\<lambda>d. ''hex('' @ d @ '')''),
       digest_base64 = (\<lambda>d. ''base64('' @ d @ '')''),
       JSON_stringify = (\<lambda>f. ''json('' @ concat (map (\<lambda>kv. fst kv @ '':'' @ to_str (snd kv) @ '';'') f) @ '')''),
       JSON_stringify_options = (\<lambda>r. ''json('' @ rq_method r @ '' '' @ rq_url r @ '')''),
       qs_stringify = (\<lambda>f. ''qs('' @ concat (map (\<lambda>kv. fst kv @ ''='' @ to_str (snd kv) @ '';'') f) @ '')''),
       dotQs_flatten = flatten \<rparr>"

text \<open>Midnight UTC of 1 January 2021.\<close>

definition at_2021 :: Moment where
  "at_2021 = \<lparr> unix = 1609459200, toISOString = ''2021-01-01T00:00:00.000Z'' \<rparr>"

text \<open>The options of \<open>new Capi({ServiceType: 'cvm', Region: 'ap-guangzhou', SecretId: 'AKID', SecretKey: 'testkey'})\<close>.\<close>

definition cvm_options :: CapiOptions where
  "cvm_options =
     options (Capi_new [] (defaultOptions\<lparr>ServiceType := ''cvm'', SecretId := ''AKID'',
                                            SecretKey := ''testkey''\<rparr>))"

text \<open>A nested parameter map with a null and an empty string among its leaves.\<close>

definition nested_params :: Payload where
  "nested_params =
     [(''Action'', Leaf (JStr ''DescribeInstances'')),
      (''Limit'', Leaf JNull),
      (''Filters'', Arr [Obj [(''Name'', Leaf (JStr [])),
                              (''Values'', Arr [Leaf (JStr ''ap-guangzhou-1''), Leaf JNull])]])]"

section \<open>Host resolution and the V3 signer\<close>

text \<open>
  C1. The Authorization value \<open>tencentSign\<close> returns is the derivation of the
  specification: the LF-joined canonical request (upper-cased method, \<open>/\<close>, the empty
  query string, the two canonical headers, the signed-header names, the hex SHA-256 of the
  JSON of the flattened payload), the string to sign over the timestamp, the credential
  scope and the hex SHA-256 of the canonical request, the key chain \<open>k1\<close>, \<open>k2\<close>,
  \<open>k3\<close> from \<open>'TC3' + SecretKey\<close>, and the hex HMAC-SHA256 of the string to sign in
  the header. The method is \<open>options.method || 'POST'\<close>, the host is the resolved one,
  the timestamp and the date are those of the call, and the payload returned is the
  flattened one.
\<close>

theorem tencentSign_authorization_reference:
  "r_Authorization (fst (tencentSign lib nowTime payload opts)) =
     ref_authorization lib (or_default (method' opts) ''POST'')
       (getHost (hostParams opts) False) (unix nowTime) (take 10 (toISOString nowTime))
       (ServiceType opts) (SecretId opts) (SecretKey opts) (dotQs_flatten lib payload)
   \<and> r_Host (fst (tencentSign lib nowTime payload opts)) = getHost (hostParams opts) False
   \<and> r_Timestamp (fst (tencentSign lib nowTime payload opts)) = unix nowTime
   \<and> r_payload (fst (tencentSign lib nowTime payload opts)) = dotQs_flatten lib payload"
  by (simp add: tencentSign_def ref_authorization_def ref_string_to_sign_def
      ref_canonical_request_def ref_signing_key_def sign_def Let_def)


text \<open>
  C6. Without a host override (the property absent, or the empty string, which \<open>!host\<close>
  treats alike) the V3 signer resolves the host \<open>ServiceType.Region.baseHost\<close>: it is
  the \<open>Host\<close> it returns and the host of its URL. The V1 signer resolves
  \<open>ServiceType.baseHost\<close>, without the region: it is the host of the URL it returns and
  the host in the string it signs. A host override that is given takes the place of both,
  as it is.
\<close>

theorem host_resolution:
  "(host opts = None \<or> host opts = Some [] \<longrightarrow>
      r_Host (fst (tencentSign lib nowTime payload opts)) =
        ServiceType opts @ ''.'' @ Region opts @ ''.'' @ tpl (baseHost opts)
      \<and> r_url (fst (tencentSign lib nowTime payload opts)) =
        or_default (protocol opts) ''https'' @ ''://''
          @ (ServiceType opts @ ''.'' @ Region opts @ ''.'' @ tpl (baseHost opts))
          @ or_default (path opts) ''/''
      \<and> getHost (hostParams opts) True = ServiceType opts @ ''.'' @ tpl (baseHost opts)
      \<and> v1_url (fst (tencentSignV1 lib nowTime Nonce payload opts)) =
        or_default (protocol opts) ''https'' @ ''://''
          @ (ServiceType opts @ ''.'' @ tpl (baseHost opts))
          @ or_default (path opts) ''/''
      \<and> map_of (v1_signed lib nowTime Nonce payload opts) ''Signature'' =
        Some (JStr (digest_base64 lib
          (sign lib
             (toUpperCase (or_default (method' opts) ''POST'')
                @ (ServiceType opts @ ''.'' @ tpl (baseHost opts))
                @ tpl (path opts) @ ''?''
                @ v1_qstr (toUpperCase (or_default (method' opts) ''POST''))
                    (dotQs_flatten lib (v1_inject nowTime Nonce payload opts)))
             (SecretKey opts) (SignatureMethod opts)))))
   \<and> (\<forall>h. host opts = Some h \<and> h \<noteq> [] \<longrightarrow>
      r_Host (fst (tencentSign lib nowTime payload opts)) = h
      \<and> r_url (fst (tencentSign lib nowTime payload opts)) =
        or_default (protocol opts) ''https'' @ ''://'' @ h @ or_default (path opts) ''/''
      \<and> getHost (hostParams opts) True = h
      \<and> v1_url (fst (tencentSignV1 lib nowTime Nonce payload opts)) =
        or_default (protocol opts) ''https'' @ ''://'' @ h @ or_default (path opts) ''/''
      \<and> map_of (v1_signed lib nowTime Nonce payload opts) ''Signature'' =
        Some (JStr (digest_base64 lib
          (sign lib
             (toUpperCase (or_default (method' opts) ''POST'') @ h
                @ tpl (path opts) @ ''?''
                @ v1_qstr (toUpperCase (or_default (method' opts) ''POST''))
                    (dotQs_flatten lib (v1_inject nowTime Nonce payload opts)))
             (SecretKey opts) (SignatureMethod opts)))))"
proof -
  have v3: "r_Host (fst (tencentSign lib nowTime payload opts)) = getHost (hostParams opts) False"
    "r_url (fst (tencentSign lib nowTime payload opts)) =
       or_default (protocol opts) ''https'' @ ''://'' @ getHost (hostParams opts) False
         @ or_default (path opts) ''/''"
    by (simp_all add: tencentSign_def getUrl_def hostParams_def Let_def)
  have v1: "v1_url (fst (tencentSignV1 lib nowTime Nonce payload opts)) =
       or_default (protocol opts) ''https'' @ ''://'' @ getHost (hostParams opts) True
         @ or_default (path opts) ''/''"
    "map_of (v1_signed lib nowTime Nonce payload opts) ''Signature'' =
        Some (JStr (digest_base64 lib
          (sign lib
             (toUpperCase (or_default (method' opts) ''POST'') @ getHost (hostParams opts) True
                @ tpl (path opts) @ ''?''
                @ v1_qstr (toUpperCase (or_default (method' opts) ''POST''))
                    (dotQs_flatten lib (v1_inject nowTime Nonce payload opts)))
             (SecretKey opts) (SignatureMethod opts))))"
    by (simp_all add: tencentSignV1_def v1_signed_def getUrl_def hostParams_def Let_def
        update_conv')
  have synth: "host opts = None \<or> host opts = Some [] \<Longrightarrow>
      getHost (hostParams opts) False =
        ServiceType opts @ ''.'' @ Region opts @ ''.'' @ tpl (baseHost opts)
      \<and> getHost (hostParams opts) True = ServiceType opts @ ''.'' @ tpl (baseHost opts)"
    by (auto simp add: getHost_def hostParams_def Let_def)
  have given: "\<And>h. host opts = Some h \<Longrightarrow> h \<noteq> [] \<Longrightarrow>
      getHost (hostParams opts) False = h \<and> getHost (hostParams opts) True = h"
    by (simp add: getHost_def hostParams_def Let_def)
  show ?thesis
  proof (intro conjI impI allI)
    assume none: "host opts = None \<or> host opts = Some []"
    show "r_Host (fst (tencentSign lib nowTime payload opts)) =
        ServiceType opts @ ''.'' @ Region opts @ ''.'' @ tpl (baseHost opts)"
      using synth [OF none] by (simp only: v3)
    show "r_url (fst (tencentSign lib nowTime payload opts)) =
        or_default (protocol opts) ''https'' @ ''://''
          @ (ServiceType opts @ ''.'' @ Region opts @ ''.'' @ tpl (baseHost opts))
          @ or_default (path opts) ''/''"
      using synth [OF none] by (simp only: v3)
    show "getHost (hostParams opts) True = ServiceType opts @ ''.'' @ tpl (baseHost opts)"
      using synth [OF none] by simp
    show "v1_url (fst (tencentSignV1 lib nowTime Nonce payload opts)) =
        or_default (protocol opts) ''https'' @ ''://''
          @ (ServiceType opts @ ''.'' @ tpl (baseHost opts))
          @ or_default (path opts) ''/''"
      using synth [OF none] by (simp only: v1)
    show "map_of (v1_signed lib nowTime Nonce payload opts) ''Signature'' =
        Some (JStr (digest_base64 lib
          (sign lib
             (toUpperCase (or_default (method' opts) ''POST'')
                @ (ServiceType opts @ ''.'' @ tpl (baseHost opts))
                @ tpl (path opts) @ ''?''
                @ v1_qstr (toUpperCase (or_default (method' opts) ''POST''))
                    (dotQs_flatten lib (v1_inject nowTime Nonce payload opts)))
             (SecretKey opts) (SignatureMethod opts))))"
      using synth [OF none] by (simp only: v1)
  next
    fix h
    assume some: "host opts = Some h \<and> h \<noteq> []"
    then have g: "getHost (hostParams opts) False = h \<and> getHost (hostParams opts) True = h"
      using given [of h] by simp
    show "r_Host (fst (tencentSign lib nowTime payload opts)) = h"
      using g by (simp only: v3)
    show "r_url (fst (tencentSign lib nowTime payload opts)) =
        or_default (protocol opts) ''https'' @ ''://'' @ h @ or_default (path opts) ''/''"
      using g by (simp only: v3)
    show "getHost (hostParams opts) True = h"
      using g by simp
    show "v1_url (fst (tencentSignV1 lib nowTime Nonce payload opts)) =
        or_default (protocol opts) ''https'' @ ''://'' @ h @ or_default (path opts) ''/''"
      using g by (simp only: v1)
    show "map_of (v1_signed lib nowTime Nonce payload opts) ''Signature'' =
        Some (JStr (digest_base64 lib
          (sign lib
             (toUpperCase (or_default (method' opts) ''POST'') @ h
                @ tpl (path opts) @ ''?''
                @ v1_qstr (toUpperCase (or_default (method' opts) ''POST''))
                    (dotQs_flatten lib (v1_inject nowTime Nonce payload opts)))
             (SecretKey opts) (SignatureMethod opts))))"
      using g by (simp only: v1)
  qed
qed

lemma cvm_options_fields:
  "host cvm_options = None" "ServiceType cvm_options = ''cvm''"
  "Region cvm_options = ''ap-guangzhou''" "baseHost cvm_options = Some ''api.qcloud.com''"
  "protocol cvm_options = Some ''https''" "path cvm_options = Some ''/''"
  by (simp_all add: cvm_options_def Capi_new_def assign_def defaultOptions_def)

theorem host_resolution_witness:
  "r_Host (fst (tencentSign symbolic_lib at_2021 [] cvm_options)) =
     ''cvm.ap-guangzhou.api.qcloud.com''
   \<and> v1_url (fst (tencentSignV1 symbolic_lib at_2021 7 [] cvm_options)) =
     ''https://cvm.api.qcloud.com/''
   \<and> r_Host (fst (tencentSign symbolic_lib at_2021 []
                     (cvm_options\<lparr>host := Some ''cvm.example.org''\<rparr>))) = ''cvm.example.org''
   \<and> v1_url (fst (tencentSignV1 symbolic_lib at_2021 7 []
                     (cvm_options\<lparr>host := Some ''cvm.example.org''\<rparr>))) =
     ''https://cvm.example.org/''"
proof -
  have c: "host (cvm_options\<lparr>host := Some ''cvm.example.org''\<rparr>) = Some ''cvm.example.org''"
    by simp
  show ?thesis
    using host_resolution [where opts = cvm_options and lib = symbolic_lib
        and nowTime = at_2021 and payload = "[]" and Nonce = 7]
      host_resolution [where opts = "cvm_options\<lparr>host := Some ''cvm.example.org''\<rparr>"
        and lib = symbolic_lib and nowTime = at_2021 and payload = "[]" and Nonce = 7]
      cvm_options_fields c
    by simp
qed

section \<open>Credentials\<close>

text \<open>
  Neither signer, nor the constructor of \<open>Capi\<close>, looks at \<open>SecretId\<close> or
  \<open>SecretKey\<close> before using them. With both empty, as the default options of \<open>Capi\<close>
  leave them, \<open>tencentSign\<close> returns an Authorization whose key chain starts from
  \<open>TC3\<close> alone, and \<open>tencentSignV1\<close> signs with the empty key.
\<close>

theorem empty_credentials_counterexample:
  "SecretId (options (Capi_new [] (defaultOptions\<lparr>ServiceType := ''cvm''\<rparr>))) = []
   \<and> SecretKey (options (Capi_new [] (defaultOptions\<lparr>ServiceType := ''cvm''\<rparr>))) = []
   \<and> r_Authorization (fst (tencentSign symbolic_lib at_2021 []
         (options (Capi_new [] (defaultOptions\<lparr>ServiceType := ''cvm''\<rparr>))))) =
       ''TC3-HMAC-SHA256 Credential=/2021-01-01/cvm/tc3_request, SignedHeaders=content-type;host, Signature=hex(hmac-sha256(hmac-sha256(hmac-sha256(hmac-sha256(TC3,2021-01-01),cvm),tc3_request),TC3-HMAC-SHA256\<newline>1609459200\<newline>2021-01-01/cvm/tc3_request\<newline>hex(sha256(POST\<newline>/\<newline>\<newline>content-type:application/json\<newline>host:cvm.ap-guangzhou.api.qcloud.com\<newline>\<newline>content-type;host\<newline>hex(sha256(json()))))))''
   \<and> map_of (v1_signed symbolic_lib at_2021 7 []
         (options (Capi_new [] (defaultOptions\<lparr>ServiceType := ''cvm''\<rparr>)))) ''Signature'' =
       Some (JStr ''base64(hmac-sha1(,POSTcvm.api.qcloud.com/?Nonce=7&Region=ap-guangzhou&RequestClient=SDK_NODEJS_v0.0.1&SecretId=&Timestamp=1609459200))'')"
  by code_simp

text \<open>
  C8, as the code has it. No signing call checks the credential fields. The constructor
  stores the \<open>SecretId\<close> and \<open>SecretKey\<close> it is given, empty or not; with both empty
  \<open>tencentSign\<close> returns the Authorization of the V3 derivation for the empty
  credential id, its key chain starting from \<open>TC3\<close> alone, and \<open>tencentSignV1\<close>
  stores the signature made with the empty key.
\<close>

theorem signers_accept_empty_credentials:
  "SecretId (options (Capi_new own opts)) = SecretId opts
   \<and> SecretKey (options (Capi_new own opts)) = SecretKey opts
   \<and> r_Authorization (fst (tencentSign lib nowTime payload (opts\<lparr>SecretId := [], SecretKey := []\<rparr>))) =
       ''TC3-HMAC-SHA256 Credential=/'' @ take 10 (toISOString nowTime) @ ''/''
         @ ServiceType opts @ ''/tc3_request, SignedHeaders=content-type;host, Signature=''
         @ digest_hex lib
             (crypto_hmac lib ''sha256''
                (crypto_hmac lib ''sha256''
                   (crypto_hmac lib ''sha256''
                      (crypto_hmac lib ''sha256'' ''TC3'' (take 10 (toISOString nowTime)))
                      (ServiceType opts))
                   ''tc3_request'')
                (ref_string_to_sign lib (unix nowTime) (take 10 (toISOString nowTime))
                   (ServiceType opts)
                   (ref_canonical_request lib (or_default (method' opts) ''POST'')
                      (getHost (hostParams opts) False) (dotQs_flatten lib payload))))
   \<and> map_of (v1_signed lib nowTime Nonce payload (opts\<lparr>SecretId := [], SecretKey := []\<rparr>))
         ''Signature'' =
       Some (JStr (digest_base64 lib
         (crypto_hmac lib (case SignatureMethod opts of None \<Rightarrow> ''sha256'' | Some a \<Rightarrow> a) []
            (toUpperCase (or_default (method' opts) ''POST'') @ getHost (hostParams opts) True
               @ tpl (path opts) @ ''?''
               @ v1_qstr (toUpperCase (or_default (method' opts) ''POST''))
                   (dotQs_flatten lib
                      (v1_inject nowTime Nonce payload
                         (opts\<lparr>SecretId := [], SecretKey := []\<rparr>)))))))"
proof (intro conjI)
  show "SecretId (options (Capi_new own opts)) = SecretId opts"
    by (simp add: Capi_new_def assign_def)
  show "SecretKey (options (Capi_new own opts)) = SecretKey opts"
    by (simp add: Capi_new_def assign_def)
  show "r_Authorization (fst (tencentSign lib nowTime payload (opts\<lparr>SecretId := [], SecretKey := []\<rparr>))) =
       ''TC3-HMAC-SHA256 Credential=/'' @ take 10 (toISOString nowTime) @ ''/''
         @ ServiceType opts @ ''/tc3_request, SignedHeaders=content-type;host, Signature=''
         @ digest_hex lib
             (crypto_hmac lib ''sha256''
                (crypto_hmac lib ''sha256''
                   (crypto_hmac lib ''sha256''
                      (crypto_hmac lib ''sha256'' ''TC3'' (take 10 (toISOString nowTime)))
                      (ServiceType opts))
                   ''tc3_request'')
                (ref_string_to_sign lib (unix nowTime) (take 10 (toISOString nowTime))
                   (ServiceType opts)
                   (ref_canonical_request lib (or_default (method' opts) ''POST'')
                      (getHost (hostParams opts) False) (dotQs_flatten lib payload))))"
    by (simp add: tencentSign_def ref_string_to_sign_def ref_canonical_request_def
        sign_def hostParams_def Let_def)
  show "map_of (v1_signed lib nowTime Nonce payload (opts\<lparr>SecretId := [], SecretKey := []\<rparr>))
         ''Signature'' =
       Some (JStr (digest_base64 lib
         (crypto_hmac lib (case SignatureMethod opts of None \<Rightarrow> ''sha256'' | Some a \<Rightarrow> a) []
            (toUpperCase (or_default (method' opts) ''POST'') @ getHost (hostParams opts) True
               @ tpl (path opts) @ ''?''
               @ v1_qstr (toUpperCase (or_default (method' opts) ''POST''))
                   (dotQs_flatten lib
                      (v1_inject nowTime Nonce payload
                         (opts\<lparr>SecretId := [], SecretKey := []\<rparr>)))))))"
    by (simp add: v1_signed_def sign_def hostParams_def Let_def update_conv')
qed

section \<open>The flattener\<close>

lemma assign_all_Nil [simp]: "assign_all acc [] = acc"
  by (simp add: assign_all_def)

lemma assign_all_Cons [simp]:
  "assign_all acc (kv # kvs) = assign_all (AList.update (fst kv) (snd kv) acc) kvs"
  by (simp add: assign_all_def)

lemma assign_all_append [simp]:
  "assign_all acc (xs @ ys) = assign_all (assign_all acc xs) ys"
  by (simp add: assign_all_def)

text \<open>Flattening assigns the leaves to the result, in the order of the traversal.\<close>

lemma flatten_assign_all:
  "flatten_val p v acc = assign_all acc (leaves_val p v)"
  "flatten_fields pre fs acc = assign_all acc (leaves_fields pre fs)"
  "flatten_elems p i vs acc = assign_all acc (leaves_elems p i vs)"
  by (induction p v acc and pre fs acc and p i vs acc
      rule: flatten_val_flatten_fields_flatten_elems.induct) simp_all

lemma keys_assign_all:
  "fst ` set (assign_all acc kvs) = fst ` set acc \<union> fst ` set kvs"
  by (induction kvs arbitrary: acc) (auto simp add: dom_update)

lemma distinct_assign_all:
  "distinct (map fst acc) \<Longrightarrow> distinct (map fst (assign_all acc kvs))"
  by (induction kvs arbitrary: acc) (simp_all add: distinct_update)

lemma update_new_key:
  "k \<notin> fst ` set al \<Longrightarrow> AList.update k v al = al @ [(k, v)]"
  by (induction al) auto

lemma assign_all_distinct:
  "distinct (map fst (acc @ kvs)) \<Longrightarrow> assign_all acc kvs = acc @ kvs"
proof (induction kvs arbitrary: acc)
  case Nil
  then show ?case by simp
next
  case (Cons kv kvs)
  have new: "fst kv \<notin> fst ` set acc"
    using Cons.prems by auto
  have "assign_all acc (kv # kvs) = assign_all (acc @ [kv]) kvs"
    using update_new_key [OF new, of "snd kv"] by simp
  also have "\<dots> = (acc @ [kv]) @ kvs"
    using Cons.prems by (intro Cons.IH) simp
  finally show ?case by simp
qed

lemma leaves_as_map: "leaves_fields None (as_map f) = f"
  by (induction f) (auto simp add: as_map_def)

lemma flatten_leaves: "flatten m = assign_all [] (leaves_fields None m)"
  by (simp add: flatten_def flatten_assign_all)

lemma distinct_flatten: "distinct (map fst (flatten m))"
  by (simp add: flatten_leaves distinct_assign_all)

text \<open>
  C7. Flattening is idempotent: flattening the flattened map again gives the same map.
  No leaf is dropped, whatever its value, null and the empty string included: the keys of
  the result are the dotted paths of all the leaves, and when no two leaves share a path
  the result is the list of the leaves with their values.
\<close>

theorem flatten_idempotent:
  "flatten (as_map (flatten m)) = flatten m
   \<and> fst ` set (flatten m) = fst ` set (leaves_fields None m)
   \<and> (distinct (map fst (leaves_fields None m)) \<longrightarrow> flatten m = leaves_fields None m)"
proof (intro conjI impI)
  have "flatten (as_map (flatten m)) = assign_all [] (flatten m)"
    by (simp add: flatten_leaves [of "as_map (flatten m)"] leaves_as_map)
  also have "\<dots> = [] @ flatten m"
    by (rule assign_all_distinct) (simp add: distinct_flatten)
  finally show "flatten (as_map (flatten m)) = flatten m" by simp
next
  show "fst ` set (flatten m) = fst ` set (leaves_fields None m)"
    by (simp add: flatten_leaves keys_assign_all)
next
  assume "distinct (map fst (leaves_fields None m))"
  then have "assign_all [] (leaves_fields None m) = [] @ leaves_fields None m"
    by (intro assign_all_distinct) simp
  then show "flatten m = leaves_fields None m"
    by (simp add: flatten_leaves)
qed

lemma leaves_nested_params:
  "leaves_fields None nested_params =
     [(''Action'', JStr ''DescribeInstances''), (''Limit'', JNull),
      (''Filters.0.Name'', JStr []), (''Filters.0.Values.0'', JStr ''ap-guangzhou-1''),
      (''Filters.0.Values.1'', JNull)]"
  by code_simp

theorem flatten_idempotent_witness:
  "flatten nested_params =
     [(''Action'', JStr ''DescribeInstances''), (''Limit'', JNull),
      (''Filters.0.Name'', JStr []), (''Filters.0.Values.0'', JStr ''ap-guangzhou-1''),
      (''Filters.0.Values.1'', JNull)]
   \<and> flatten (as_map (flatten nested_params)) = flatten nested_params"
proof -
  have d: "distinct (map fst (leaves_fields None nested_params))"
    by (simp add: leaves_nested_params)
  have f: "flatten nested_params = leaves_fields None nested_params"
    using flatten_idempotent [of nested_params] d by blast
  have i: "flatten (as_map (flatten nested_params)) = flatten nested_params"
    using flatten_idempotent [of nested_params] by blast
  show ?thesis
  proof (intro conjI)
    show "flatten nested_params =
      [(''Action'', JStr ''DescribeInstances''), (''Limit'', JNull),
       (''Filters.0.Name'', JStr []), (''Filters.0.Values.0'', JStr ''ap-guangzhou-1''),
       (''Filters.0.Values.1'', JNull)]"
      using f leaves_nested_params by simp
    show "flatten (as_map (flatten nested_params)) = flatten nested_params"
      by (rule i)
  qed
qed

section \<open>The V1 query string\<close>

text \<open>What a key adds to \<open>qstr\<close> does not depend on what \<open>qstr\<close> holds already.\<close>

lemma v1_append_from_empty:
  "v1_append meth flat q k = q @ v1_append meth flat [] k"
  by (simp add: v1_append_def Let_def)

lemma foldl_v1_append:
  "foldl (v1_append meth flat) q ks = q @ concat (map (v1_append meth flat []) ks)"
proof (induction ks arbitrary: q)
  case Nil
  then show ?case by simp
next
  case (Cons k ks)
  show ?case
    using Cons.IH [of "v1_append meth flat q k"] v1_append_from_empty [of meth flat q k]
    by simp
qed

lemma v1_qstr_concat:
  "v1_qstr meth flat = drop 1 (concat (map (v1_append meth flat []) (sort (Object_keys flat))))"
  using foldl_v1_append [of meth flat "[]"] by (simp add: v1_qstr_def Let_def)

lemma indexOf_nonneg_or_absent: "indexOf s c = - 1 \<or> 0 \<le> indexOf s c"
  by (induction s) (auto simp add: Let_def)

text \<open>\<open>indexOf\<close> is falsy exactly when the string starts with the character.\<close>

lemma indexOf_zero_iff: "indexOf s c = 0 \<longleftrightarrow> (s \<noteq> [] \<and> hd s = c)"
proof (cases s)
  case Nil
  then show ?thesis by simp
next
  case (Cons x xs)
  show ?thesis
    using indexOf_nonneg_or_absent [of xs c] Cons by (auto simp add: Let_def)
qed

lemma starts_with_at_iff: "truthy v \<and> index0 v = JStr ''@'' \<longleftrightarrow> starts_with_at v"
proof (cases v)
  case (JStr s)
  then show ?thesis by (cases s) auto
qed simp_all

lemma v1_append_ref_pair:
  assumes "get_prop flat (ref_rewrite k) = get_prop flat k"
  shows "v1_append meth flat [] k = ref_pair meth (k, get_prop flat k)"
proof -
  have rw: "(if indexOf k CHR ''_'' \<noteq> 0 then replace_underscores k else k) = ref_rewrite k"
    by (simp add: ref_rewrite_def indexOf_zero_iff)
  show ?thesis
    using assms starts_with_at_iff [of "get_prop flat k"]
    by (simp add: v1_append_def ref_pair_def ref_value_def rw Let_def)
qed

text \<open>
  The loop builds the query string of the specification on every flattened map in which
  the rewritten key of each parameter leads to that parameter's value: in particular
  when no key has an underscore after its first character.
\<close>

lemma v1_qstr_ref_query:
  assumes "\<forall>k \<in> set (Object_keys flat). get_prop flat (ref_rewrite k) = get_prop flat k"
  shows "v1_qstr meth flat = ref_query meth flat"
proof -
  have eq: "map (v1_append meth flat []) (sort (Object_keys flat)) =
        map (\<lambda>k. ref_pair meth (k, get_prop flat k)) (sort (Object_keys flat))"
    using assms by (intro map_cong) (simp_all add: v1_append_ref_pair)
  show ?thesis
    unfolding v1_qstr_concat ref_query_def by (simp only: eq)
qed

text \<open>
  C2, at the parameters \<open>{Action: 'DescribeInstances', a_b: 'v'}\<close> with the method
  POST. The query string of the specification pairs the rewritten key \<open>a.b\<close> with the
  parameter's value \<open>v\<close>. The loop reads the value under the rewritten key, finds none
  and writes the pair with the empty value.
\<close>

theorem v1_query_underscore_key:
  "v1_qstr ''POST'' [(''Action'', JStr ''DescribeInstances''), (''a_b'', JStr ''v'')] =
     ''Action=DescribeInstances&a.b=''
   \<and> ref_query ''POST'' [(''Action'', JStr ''DescribeInstances''), (''a_b'', JStr ''v'')] =
     ''Action=DescribeInstances&a.b=v''"
  by code_simp

text \<open>
  A key whose first character is an underscore is not rewritten, wherever its other
  underscores are, and is signed with its value; and a rewritten key that is a key of the
  map as well is signed with that key's value.
\<close>

theorem underscore_key_counterexample:
  "''_a_b'' ! 2 = CHR ''_''
   \<and> v1_qstr ''POST'' [(''_a_b'', JStr ''v'')] = ''_a_b=v''
   \<and> ''a_b'' ! 1 = CHR ''_''
   \<and> v1_qstr ''POST'' [(''a.b'', JStr ''x''), (''a_b'', JStr ''y'')] = ''a.b=x&a.b=x''"
  by code_simp

text \<open>
  C10, as the code has it. Take a key of the flattened map whose first underscore is not
  at position 0, and let the key with its underscores replaced by dots not be a key of
  the map. The loop goes over that key, rewrites it before it reads the value, and adds
  the rewritten key with the empty value to the signed query string. The flattened map
  with the signature, which \<open>qs.stringify\<close> turns into \<open>signPath\<close>, still holds the
  value under the key as it was.
\<close>

theorem v1_rewritten_key_signs_empty_value:
  assumes flat: "flat = dotQs_flatten lib (v1_inject nowTime Nonce payload opts)"
    and meth: "meth = toUpperCase (or_default (method' opts) ''POST'')"
    and stored: "map_of flat k = Some v"
    and first: "0 < indexOf k CHR ''_''"
    and miss: "map_of flat (replace_underscores k) = None"
  shows "k \<in> set (sort (Object_keys flat))
    \<and> v1_qstr meth flat =
        drop 1 (concat (map (v1_append meth flat []) (sort (Object_keys flat))))
    \<and> v1_append meth flat [] k = ''&'' @ replace_underscores k @ ''=''
    \<and> replace_underscores k \<noteq> k
    \<and> v1_signPath (fst (tencentSignV1 lib nowTime Nonce payload opts)) =
        qs_stringify lib (v1_signed lib nowTime Nonce payload opts)
    \<and> map_of (v1_signed lib nowTime Nonce payload opts) k = Some v"
proof (intro conjI)
  show "k \<in> set (sort (Object_keys flat))"
    using stored by (auto simp add: Object_keys_def dest: map_of_SomeD intro: rev_image_eqI)
  show "v1_qstr meth flat =
        drop 1 (concat (map (v1_append meth flat []) (sort (Object_keys flat))))"
    by (rule v1_qstr_concat)
  have nonempty: "k \<noteq> []"
    using first by auto
  show "v1_append meth flat [] k = ''&'' @ replace_underscores k @ ''=''"
    using first miss nonempty by (simp add: v1_append_def get_prop_def Let_def)
  show "replace_underscores k \<noteq> k"
    using stored miss by auto
  show "v1_signPath (fst (tencentSignV1 lib nowTime Nonce payload opts)) =
        qs_stringify lib (v1_signed lib nowTime Nonce payload opts)"
    by (simp add: tencentSignV1_def Let_def)
  have "indexOf ''Signature'' CHR ''_'' = - 1"
    by (simp add: Let_def)
  then have "k \<noteq> ''Signature''"
    using first by auto
  then show "map_of (v1_signed lib nowTime Nonce payload opts) k = Some v"
    using stored flat by (simp add: v1_signed_def Let_def update_conv')
qed

theorem v1_rewritten_key_signs_empty_value_witness:
  "v1_append ''POST''
     (flatten (v1_inject at_2021 7 [(''a_b'', Leaf (JStr ''v''))] cvm_options)) [] ''a_b'' =
     ''&a.b=''
   \<and> map_of (v1_signed symbolic_lib at_2021 7 [(''a_b'', Leaf (JStr ''v''))] cvm_options)
         ''a_b'' = Some (JStr ''v'')"
proof -
  have flat: "flatten (v1_inject at_2021 7 [(''a_b'', Leaf (JStr ''v''))] cvm_options) =
      dotQs_flatten symbolic_lib (v1_inject at_2021 7 [(''a_b'', Leaf (JStr ''v''))] cvm_options)"
    by (simp add: symbolic_lib_def)
  have meth: "''POST'' = toUpperCase (or_default (method' cvm_options) ''POST'')"
    by code_simp
  have stored: "map_of (flatten (v1_inject at_2021 7 [(''a_b'', Leaf (JStr ''v''))] cvm_options))
      ''a_b'' = Some (JStr ''v'')"
    by code_simp
  have first: "0 < indexOf ''a_b'' CHR ''_''"
    by code_simp
  have miss: "map_of (flatten (v1_inject at_2021 7 [(''a_b'', Leaf (JStr ''v''))] cvm_options))
      (replace_underscores ''a_b'') = None"
    by code_simp
  have r: "replace_underscores ''a_b'' = ''a.b''"
    by code_simp
  show ?thesis
    using v1_rewritten_key_signs_empty_value [OF flat meth stored first miss] r
    by simp
qed

section \<open>The V1 signature\<close>

text \<open>
  The \<open>Signature\<close> parameter is the base64 of the HMAC, keyed by \<open>SecretKey\<close>, of
  method, host, path, \<open>?\<close> and the query string. The algorithm is
  \<open>options.SignatureMethod\<close>, and the default of \<open>sign\<close>, \<open>sha256\<close>, when there is
  none.
\<close>

lemma v1_signed_Signature:
  "map_of (v1_signed lib nowTime Nonce payload opts) ''Signature'' =
     Some (JStr (digest_base64 lib
       (crypto_hmac lib (case SignatureMethod opts of None \<Rightarrow> ''sha256'' | Some a \<Rightarrow> a)
          (SecretKey opts)
          (toUpperCase (or_default (method' opts) ''POST'') @ getHost (hostParams opts) True
             @ tpl (path opts) @ ''?''
             @ v1_qstr (toUpperCase (or_default (method' opts) ''POST''))
                 (dotQs_flatten lib (v1_inject nowTime Nonce payload opts))))))"
  by (simp add: v1_signed_def sign_def Let_def update_conv')

text \<open>
  Through \<open>Capi\<close> there is one, \<open>sha1\<close>, unless the options given to the constructor
  have the property themselves.
\<close>

lemma Capi_new_SignatureMethod:
  "SignatureMethod (options (Capi_new own opts)) =
     (if ''SignatureMethod'' \<in> set own then SignatureMethod opts else Some ''sha1'')"
  by (simp add: Capi_new_def assign_def defaultOptions_def)

text \<open>
  C3, at a call of \<open>tencentSignV1\<close> whose options have no \<open>SignatureMethod\<close>. The
  signature stored is made with \<open>sha256\<close>, not with \<open>sha1\<close>, and the signed
  parameters carry no \<open>SignatureMethod\<close> that would say so.
\<close>

theorem tencentSignV1_without_SignatureMethod:
  "map_of (v1_signed symbolic_lib at_2021 7 [(''Action'', Leaf (JStr ''DescribeInstances''))]
             (cvm_options\<lparr>SignatureMethod := None\<rparr>)) ''Signature'' =
     Some (JStr ''base64(hmac-sha256(testkey,POSTcvm.api.qcloud.com/?Action=DescribeInstances&Nonce=7&Region=ap-guangzhou&RequestClient=SDK_NODEJS_v0.0.1&SecretId=AKID&Timestamp=1609459200))'')
   \<and> map_of (v1_signed symbolic_lib at_2021 7 [(''Action'', Leaf (JStr ''DescribeInstances''))]
             (cvm_options\<lparr>SignatureMethod := None\<rparr>)) ''SignatureMethod'' = None"
  by code_simp

section \<open>\<open>Capi.request\<close>\<close>

text \<open>
  On the V1 path the descriptor has no body, its form is absent or undefined, and its
  URL is the signer's, with a bare \<open>?\<close> after it when the method is not POST.
\<close>

lemma request_v1_descriptor:
  assumes "\<not> isV3_arg"
    and "(case opts_arg of None \<Rightarrow> isV3 (options this)
          | Some (own, opts) \<Rightarrow> own_prop own ''isV3'' (isV3 opts)) \<noteq> Some True"
  shows "rq_body (fst (request lib nowTime Nonce this data opts_arg isV3_arg)) = None
    \<and> rq_form (fst (request lib nowTime Nonce this data opts_arg isV3_arg)) \<in> {None, Some None}
    \<and> rq_url (fst (request lib nowTime Nonce this data opts_arg isV3_arg)) \<in>
        {v1_url (fst (tencentSignV1 lib nowTime Nonce data
                   (case opts_arg of None \<Rightarrow> options this
                    | Some (own, opts) \<Rightarrow> assign (options this) own opts))),
         v1_url (fst (tencentSignV1 lib nowTime Nonce data
                   (case opts_arg of None \<Rightarrow> options this
                    | Some (own, opts) \<Rightarrow> assign (options this) own opts))) @ ''?''}"
  using assms
  by (simp add: request_def Let_def tencentSignV1_def v1_payload_def qs_stringify_any_def
      split_beta split: option.splits)

text \<open>
  C4, at the request \<open>{Action: 'DescribeInstances', Version: '2017-03-12'}\<close> on an
  instance for the service \<open>cvm\<close>. With the method POST the descriptor's \<open>form\<close> is
  undefined; with the method GET, given in the per-call options, its URL ends in a bare
  \<open>?\<close>. Neither holds a parameter or the signature.
\<close>

theorem request_v1_sends_no_parameters:
  "fst (request symbolic_lib at_2021 7 (Capi_new [] cvm_options)
          [(''Action'', Leaf (JStr ''DescribeInstances'')),
           (''Version'', Leaf (JStr ''2017-03-12''))]
          None False) =
     \<lparr> rq_url = ''https://cvm.api.qcloud.com/'', rq_method = ''POST'', rq_json = True,
       rq_strictSSL = False, rq_headers = None, rq_body = None, rq_form = Some None,
       rq_timeout = None \<rparr>
   \<and> fst (request symbolic_lib at_2021 7 (Capi_new [] cvm_options)
          [(''Action'', Leaf (JStr ''DescribeInstances'')),
           (''Version'', Leaf (JStr ''2017-03-12''))]
          (Some ([''method''], cvm_options\<lparr>method' := Some ''GET''\<rparr>)) False) =
     \<lparr> rq_url = ''https://cvm.api.qcloud.com/?'', rq_method = ''GET'', rq_json = True,
       rq_strictSSL = False, rq_headers = None, rq_body = None, rq_form = None,
       rq_timeout = None \<rparr>"
  by code_simp

section \<open>What a call changes\<close>








end
